theory Spec2Isabelle
  imports Complex_Main "HOL-Library.Multiset"
begin

section \<open>Data model of the chart (d3.ganttChart)\<close>

text \<open>
  A JavaScript \<^verbatim>\<open>Date\<close> is read through its number of milliseconds since the epoch
  (what \<^verbatim>\<open>a.end - b.end\<close> and \<^verbatim>\<open>+x\<close> read), an \<open>int\<close>. Pixel quantities are JavaScript
  numbers; they are idealised as \<open>real\<close>. The field names of the source that are
  Isabelle keywords or too generic (\<^verbatim>\<open>name\<close>, \<^verbatim>\<open>text\<close>, \<^verbatim>\<open>start\<close>, \<^verbatim>\<open>end\<close>) carry the prefix
  of their object.
\<close>

type_synonym timestamp = int

record activity =
  act_name :: string
  act_description :: "string option"

record event =
  ev_activity :: string
  ev_text :: string
  ev_start :: timestamp
  ev_end :: timestamp
  fillColor :: "string option"
  strokeColor :: "string option"

record label_params =
  format :: string
  rotation :: real
  dx :: string
  dy :: string

record yAxis_params =
  yAxis_width :: real
  dynamicHeight :: bool
  elementHeight :: real

text \<open>
  \<^verbatim>\<open>xAxis.interval\<close> is a d3 time interval; the chart only calls its
  \<^verbatim>\<open>range(start, stop)\<close>, so the field holds that function.
\<close>

record xAxis_params =
  xAxis_height :: real
  dynamicWidth :: bool
  tickDistance :: real
  interval :: "timestamp \<Rightarrow> timestamp \<Rightarrow> timestamp list"
  label :: label_params

record params =
  node :: string
  width :: real
  height :: real
  activities :: "activity list"
  data :: "event list"
  endTime :: timestamp
  startTime :: timestamp
  yAxis :: yAxis_params
  xAxis :: xAxis_params

section \<open>Array.prototype.sort with a comparator\<close>

text \<open>
  \<^verbatim>\<open>arr.sort(function(a, b) { return cmp(a, b); })\<close>: an element \<open>a\<close> is placed
  before \<open>b\<close> when the comparator is negative, after it when positive, and elements that
  compare equal keep their order (the sort is stable). The model is the stable
  insertion sort.
\<close>

fun sort_insert :: "('a \<Rightarrow> 'a \<Rightarrow> int) \<Rightarrow> 'a \<Rightarrow> 'a list \<Rightarrow> 'a list" where
  "sort_insert cmp a [] = [a]"
| "sort_insert cmp a (b # bs) =
     (if cmp a b \<le> 0 then a # b # bs else b # sort_insert cmp a bs)"

fun array_sort :: "('a \<Rightarrow> 'a \<Rightarrow> int) \<Rightarrow> 'a list \<Rightarrow> 'a list" where
  "array_sort cmp [] = []"
| "array_sort cmp (a # as) = sort_insert cmp a (array_sort cmp as)"

section \<open>init: the time domain (lines 89 to 101)\<close>

text \<open>
  The part of \<^verbatim>\<open>init\<close> that follows the merge of the parameters, acting on
  \<^verbatim>\<open>this.params\<close>:
  \<^verbatim>\<open>
  if (this.params.data.length > 0) {
    this.params.data.sort(function(a, b) { return a.end - b.end; });
    this.params.endTime = this.params.data[this.params.data.length - 1].end;
    this.params.data.sort(function(a, b) { return a.start - b.start; });
    this.params.startTime = this.params.data[0].start;
  }
  \<close>
  Both indexed reads are in range, since the list is not empty there.
\<close>

definition init_domain :: "params \<Rightarrow> params" where
  "init_domain p =
     (if length (data p) > 0 then
        let byEnd = array_sort (\<lambda>a b. ev_end a - ev_end b) (data p);
            p1 = p\<lparr>data := byEnd\<rparr>;
            p2 = p1\<lparr>endTime := ev_end (data p1 ! (length (data p1) - 1))\<rparr>;
            byStart = array_sort (\<lambda>a b. ev_start a - ev_start b) (data p2);
            p3 = p2\<lparr>data := byStart\<rparr>
        in p3\<lparr>startTime := ev_start (data p3 ! 0)\<rparr>
      else p)"

section \<open>The d3 scales the chart builds\<close>

text \<open>
  The chart is written against D3 version 4 (see the README); the scale constructors are
  library code, not part of the repository. They are modelled after d3-scale 1.x, for the
  only configurations the chart uses.

  \<^verbatim>\<open>d3.scaleTime().domain([d0, d1]).range([r0, r1]).clamp(true)\<close> is the two-point
  continuous scale (continuous.js):
  \<^verbatim>\<open>
  function deinterpolateLinear(a, b) {
    return (b -= (a = +a)) ? function(x) { return (x - a) / b; } : constant(b);
  }
  function deinterpolateClamp(deinterpolate) {
    return function(a, b) {
      var d = deinterpolate(a = +a, b = +b);
      return function(x) { return x <= a ? 0 : x >= b ? 1 : d(x); };
    };
  }
  function bimap(domain, range, deinterpolate, reinterpolate) {
    var d0 = domain[0], d1 = domain[1], r0 = range[0], r1 = range[1];
    if (d1 < d0) d0 = deinterpolate(d1, d0), r0 = reinterpolate(r1, r0);
    else d0 = deinterpolate(d0, d1), r0 = reinterpolate(r0, r1);
    return function(x) { return r0(d0(x)); };
  }
  \<close>
  with \<^verbatim>\<open>interpolateNumber(a, b)(t) = a + (b - a) * t\<close> on the range. No branch divides
  by zero: with \<open>a = b\<close> the inner function is the constant \<open>0\<close>.
\<close>

definition deinterpolateLinear :: "real \<Rightarrow> real \<Rightarrow> real \<Rightarrow> real" where
  "deinterpolateLinear a b x = (if b - a \<noteq> 0 then (x - a) / (b - a) else 0)"

definition deinterpolateClamp :: "real \<Rightarrow> real \<Rightarrow> real \<Rightarrow> real" where
  "deinterpolateClamp a b x =
     (if x \<le> a then 0 else if x \<ge> b then 1 else deinterpolateLinear a b x)"

definition interpolateNumber :: "real \<Rightarrow> real \<Rightarrow> real \<Rightarrow> real" where
  "interpolateNumber a b t = a + (b - a) * t"

definition bimap :: "real \<times> real \<Rightarrow> real \<times> real \<Rightarrow> real \<Rightarrow> real" where
  "bimap dmn rng x =
     (let d0 = fst dmn; d1 = snd dmn; r0 = fst rng; r1 = snd rng
      in if d1 < d0 then interpolateNumber r1 r0 (deinterpolateClamp d1 d0 x)
         else interpolateNumber r0 r1 (deinterpolateClamp d0 d1 x))"

text \<open>
  \<^verbatim>\<open>d3.scaleBand().domain(names).range([r0, r1])\<close>, with the default padding \<open>0\<close>,
  alignment \<open>0.5\<close> and no rounding (band.js). The domain keeps the first occurrence of
  every name (ordinal.js: a name already in the index is not pushed again), and a value
  that is not in the domain is mapped to \<^verbatim>\<open>undefined\<close> (\<open>None\<close>):
  \<^verbatim>\<open>
  var n = domain().length, reverse = range[1] < range[0],
      start = range[reverse - 0], stop = range[1 - reverse];
  step = (stop - start) / Math.max(1, n - paddingInner + paddingOuter * 2);
  start += (stop - start - step * (n - paddingInner)) * align;
  bandwidth = step * (1 - paddingInner);
  var values = sequence(n).map(function(i) { return start + step * i; });
  return ordinalRange(reverse ? values.reverse() : values);
  \<close>
\<close>

definition ordinal_push :: "string list \<Rightarrow> string \<Rightarrow> string list" where
  "ordinal_push ds d = (if d \<in> set ds then ds else ds @ [d])"

definition ordinal_domain :: "string list \<Rightarrow> string list" where
  "ordinal_domain names = foldl ordinal_push [] names"

fun index_of :: "'a \<Rightarrow> 'a list \<Rightarrow> nat option" where
  "index_of d [] = None"
| "index_of d (x # xs) =
     (if d = x then Some 0 else map_option Suc (index_of d xs))"

record band_scale =
  band_domain :: "string list"
  band_range :: "real list"
  band_step :: real
  band_bandwidth :: real

definition scaleBand :: "string list \<Rightarrow> real \<times> real \<Rightarrow> band_scale" where
  "scaleBand names rng =
     (let ds = ordinal_domain names;
          n = length ds;
          reverse = snd rng < fst rng;
          start = (if reverse then snd rng else fst rng);
          stop = (if reverse then fst rng else snd rng);
          step = (stop - start) / max 1 (real n);
          start' = start + (stop - start - step * real n) * (1 / 2);
          values = map (\<lambda>i. start' + step * real i) [0..<n]
      in \<lparr>band_domain = ds,
          band_range = (if reverse then rev values else values),
          band_step = step,
          band_bandwidth = step\<rparr>)"

definition band_apply :: "band_scale \<Rightarrow> string \<Rightarrow> real option" where
  "band_apply sc d =
     (case index_of d (band_domain sc) of
        None \<Rightarrow> None
      | Some i \<Rightarrow> Some (band_range sc ! i))"

definition bandwidth :: "band_scale \<Rightarrow> real" where
  "bandwidth sc = band_bandwidth sc"

section \<open>Scales and geometry of the chart\<close>

text \<open>
  \<^verbatim>\<open>xAxisScale\<close> (lines 187 to 192), \<^verbatim>\<open>yAxisScale\<close> (lines 199 to 203),
  \<^verbatim>\<open>elementWidth\<close> (lines 212 to 214), \<^verbatim>\<open>elementTranslate\<close> (lines 178 to 180) and
  \<^verbatim>\<open>elementLabelTranslate\<close> (lines 223 to 225). The two translate functions build the
  string \<^verbatim>\<open>'translate(' + x + ', ' + y + ')'\<close>; the model keeps the two numbers, the
  second one optional since the band scale may answer \<^verbatim>\<open>undefined\<close>.
\<close>

definition xAxisScale :: "params \<Rightarrow> timestamp \<Rightarrow> real" where
  "xAxisScale p t =
     bimap (real_of_int (startTime p), real_of_int (endTime p)) (0, width p) (real_of_int t)"

definition yAxisScale :: "params \<Rightarrow> band_scale" where
  "yAxisScale p = scaleBand (map act_name (activities p)) (0, height p)"

datatype translate = Translate real "real option"

definition elementTranslate :: "params \<Rightarrow> event \<Rightarrow> translate" where
  "elementTranslate p elem =
     Translate (xAxisScale p (ev_start elem)) (band_apply (yAxisScale p) (ev_activity elem))"

definition elementWidth :: "params \<Rightarrow> event \<Rightarrow> real" where
  "elementWidth p elem = xAxisScale p (ev_end elem) - xAxisScale p (ev_start elem)"

definition elementLabelTranslate :: "params \<Rightarrow> event \<Rightarrow> translate" where
  "elementLabelTranslate p elem =
     Translate (elementWidth p elem / 2) (Some (bandwidth (yAxisScale p) / 2))"

section \<open>draw\<close>

text \<open>
  \<^verbatim>\<open>drawYAxis\<close> (lines 273 to 301) writes to the document and stores the band width of
  the row scale in the parameters:
  \<^verbatim>\<open>this.params.yAxis.elementHeight = this.yAxisScale().bandwidth();\<close>
  \<^verbatim>\<open>drawXAxis\<close> and \<^verbatim>\<open>initTooltips\<close> only write to the document.
\<close>

definition drawYAxis :: "params \<Rightarrow> params" where
  "drawYAxis p = p\<lparr>yAxis := (yAxis p)\<lparr>elementHeight := bandwidth (yAxisScale p)\<rparr>\<rparr>"

text \<open>
  What \<^verbatim>\<open>draw\<close> (lines 108 to 169) appends for one data point: the group with its
  transform, the rectangle with fill, stroke, height and width, and the text with its
  transform. \<^verbatim>\<open>if (elem.fillColor) return elem.fillColor;\<close> answers \<^verbatim>\<open>undefined\<close> for a
  missing or empty colour.
\<close>

record element =
  el_transform :: translate
  el_fill :: "string option"
  el_stroke :: "string option"
  el_height :: real
  el_width :: real
  el_label_transform :: translate
  el_text :: string

definition truthy_colour :: "string option \<Rightarrow> string option" where
  "truthy_colour c = (case c of None \<Rightarrow> None | Some s \<Rightarrow> (if s = [] then None else Some s))"

definition draw_element :: "params \<Rightarrow> event \<Rightarrow> element" where
  "draw_element p elem =
     \<lparr>el_transform = elementTranslate p elem,
      el_fill = truthy_colour (fillColor elem),
      el_stroke = truthy_colour (strokeColor elem),
      el_height = elementHeight (yAxis p),
      el_width = elementWidth p elem,
      el_label_transform = elementLabelTranslate p elem,
      el_text = ev_text elem\<rparr>"

record chart =
  chart_width :: real
  chart_height :: real
  chart_elements :: "element list"

text \<open>
  \<^verbatim>\<open>draw\<close> first recomputes height and width in \<^verbatim>\<open>this.params\<close> (lines 110 to 118),
  then draws the axes and one group per data point. It returns the parameters as it
  leaves them and what it has drawn.
\<close>

definition draw :: "params \<Rightarrow> params \<times> chart" where
  "draw p =
     (let p1 = (if dynamicHeight (yAxis p)
                then p\<lparr>height := elementHeight (yAxis p) * real (length (activities p))\<rparr>
                else p);
          p2 = (if dynamicWidth (xAxis p1)
                then let numberOfTicks =
                           length (interval (xAxis p1) (startTime p1) (endTime p1))
                     in p1\<lparr>width := tickDistance (xAxis p1) * real numberOfTicks\<rparr>
                else p1);
          p3 = drawYAxis p2
      in (p3, \<lparr>chart_width = width p3,
               chart_height = height p3,
               chart_elements = map (draw_element p3) (data p3)\<rparr>))"

section \<open>Default parameters and the README's chart\<close>

text \<open>
  A d3 time interval of fixed length \<open>step\<close> milliseconds whose boundaries are the
  multiples of \<open>step\<close> (\<^verbatim>\<open>d3.timeMinute.every(15)\<close> and \<^verbatim>\<open>d3.timeHour.every(1)\<close> in a
  time zone whose offset is a multiple of the step): \<^verbatim>\<open>range(start, stop)\<close> lists the
  boundaries in \<open>[start, stop)\<close>.
\<close>

definition interval_range :: "int \<Rightarrow> timestamp \<Rightarrow> timestamp \<Rightarrow> timestamp list" where
  "interval_range step start stop =
     (let first = ((start + step - 1) div step) * step
      in if first < stop
         then map (\<lambda>i. first + int i * step) [0..<nat ((stop - first + step - 1) div step)]
         else [])"

text \<open>
  \<^verbatim>\<open>defaultParameters\<close> (lines 47 to 74). The two \<^verbatim>\<open>new Date()\<close> are the clock readings
  at load time, \<open>endTime\<close> first.
\<close>

definition defaultParameters :: "timestamp \<Rightarrow> timestamp \<Rightarrow> params" where
  "defaultParameters now_end now_start =
     \<lparr>node = ''#gantt'', width = 200, height = 200, activities = [], data = [],
      endTime = now_end, startTime = now_start,
      yAxis = \<lparr>yAxis_width = 15, dynamicHeight = True, elementHeight = 50\<rparr>,
      xAxis = \<lparr>xAxis_height = 35, dynamicWidth = True, tickDistance = 50,
               interval = interval_range 900000,
               label = \<lparr>format = ''%H:%M'', rotation = - 90, dx = ''-1em'', dy = ''-1em''\<rparr>\<rparr>\<rparr>"

text \<open>
  The chart of the README: three activities and four events on 2016-06-06 (times in
  milliseconds since the epoch, read as UTC), hourly ticks, a y axis 50 wide.
\<close>

definition readme_activities :: "activity list" where
  "readme_activities =
     [\<lparr>act_name = ''John'', act_description = Some ''John's schedule''\<rparr>,
      \<lparr>act_name = ''Bob'', act_description = None\<rparr>,
      \<lparr>act_name = ''Jane'', act_description = Some ''Jane's schedule''\<rparr>]"

definition readme_data :: "event list" where
  "readme_data =
     [\<lparr>ev_activity = ''John'', ev_text = ''Work'', ev_start = 1465196400000,
       ev_end = 1465225200000, fillColor = Some ''rgb(200, 200, 200)'', strokeColor = None\<rparr>,
      \<lparr>ev_activity = ''Jane'', ev_text = ''Work'', ev_start = 1465203600000,
       ev_end = 1465234200000, fillColor = Some ''rgb(200, 100, 100)'', strokeColor = None\<rparr>,
      \<lparr>ev_activity = ''Bob'', ev_text = ''School'', ev_start = 1465200000000,
       ev_end = 1465223400000, fillColor = Some ''rgb(200, 200, 100)'', strokeColor = None\<rparr>,
      \<lparr>ev_activity = ''Bob'', ev_text = ''Soccer'', ev_start = 1465225200000,
       ev_end = 1465230600000, fillColor = Some ''rgb(200, 200, 100)'', strokeColor = None\<rparr>]"

definition readme_params :: params where
  "readme_params =
     (defaultParameters 1478131200000 1478131200000)
       \<lparr>node := ''#gantt-chart'', activities := readme_activities, data := readme_data,
        yAxis := \<lparr>yAxis_width = 50, dynamicHeight = True, elementHeight = 50\<rparr>,
        xAxis := \<lparr>xAxis_height = 35, dynamicWidth = True, tickDistance = 50,
                 interval = interval_range 3600000,
                 label = \<lparr>format = ''%H:%M'', rotation = - 90, dx = ''-1em'',
                          dy = ''-1em''\<rparr>\<rparr>\<rparr>"

section \<open>Further example configurations\<close>

text \<open>
  \<open>static_params\<close>: the defaults with both clock readings equal and the dynamic width
  switched off. \<open>outside_event\<close>: an event from 04:00 to 08:00. \<open>stray_params\<close>: the
  README's chart with the single event of an activity that is not configured.
  \<open>fixed_height_params\<close>: the README's chart with the dynamic height switched off.
\<close>

definition static_params :: params where
  "static_params =
     (defaultParameters 1465196400000 1465196400000)
       \<lparr>xAxis := (xAxis (defaultParameters 1465196400000 1465196400000))\<lparr>dynamicWidth := False\<rparr>\<rparr>"

definition outside_event :: event where
  "outside_event =
     \<lparr>ev_activity = ''Bob'', ev_text = ''Night shift'', ev_start = 1465185600000,
      ev_end = 1465200000000, fillColor = None, strokeColor = None\<rparr>"

definition stray_event :: event where
  "stray_event =
     \<lparr>ev_activity = ''Alice'', ev_text = ''Work'', ev_start = 1465196400000,
      ev_end = 1465225200000, fillColor = None, strokeColor = None\<rparr>"

definition stray_params :: params where
  "stray_params = readme_params\<lparr>data := [stray_event]\<rparr>"

definition fixed_height_params :: params where
  "fixed_height_params =
     readme_params\<lparr>yAxis := \<lparr>yAxis_width = 50, dynamicHeight = False, elementHeight = 50\<rparr>\<rparr>"

section \<open>JavaScript objects on a heap\<close>

text \<open>
  What the merge of the parameters shares with its caller, and what \<^verbatim>\<open>init\<close> changes
  in place, depends on the identity of objects. For these questions the parameters are
  modelled as JavaScript objects on a heap: a value is a primitive, a \<^verbatim>\<open>Date\<close> (read
  through its milliseconds; no code here changes one), a function (its number of
  parameters and a label) or a reference to an object; an object is a plain object or an
  array, with its own properties in enumeration order. An array of \<open>n\<close> elements has
  the properties \<open>Index 0\<close> to \<open>Index (n - 1)\<close>. Prototypes are left out: the objects
  concerned are literals. A heap is the list of the objects allocated so far, an address
  the position in it.
\<close>

type_synonym addr = nat

datatype key = Name string | Index nat

datatype jsval =
  Undefined | Null | Bool bool | Num int | Str string | Date timestamp | Function nat string | Ref addr

datatype obj = Obj (is_array: bool) (props: "(key \<times> jsval) list")




fun assign :: "key \<Rightarrow> jsval \<Rightarrow> (key \<times> jsval) list \<Rightarrow> (key \<times> jsval) list" where
  "assign k v [] = [(k, v)]"
| "assign k v (p # ps) = (if fst p = k then (k, v) # ps else p # assign k v ps)"

definition set_prop :: "obj \<Rightarrow> key \<Rightarrow> jsval \<Rightarrow> obj" where
  "set_prop ob k v = Obj (is_array ob) (assign k v (props ob))"







subsection \<open>util.extend (src/util.js, lines 9 to 21)\<close>


subsection \<open>jQuery.extend(true, target, options)\<close>






subsection \<open>init on the heap\<close>








subsection \<open>Auxiliary notions for the proofs\<close>















section \<open>Facts about the sort and the time domain\<close>


















section \<open>Facts about the scales\<close>

lemma xAxisScale_ordered:
  assumes "startTime p \<le> endTime p"
  shows "xAxisScale p t =
     (if t \<le> startTime p then 0
      else if endTime p \<le> t then width p
      else width p * (real_of_int (t - startTime p) / real_of_int (endTime p - startTime p)))"
  using assms
  by (simp add: xAxisScale_def bimap_def deinterpolateClamp_def deinterpolateLinear_def
      interpolateNumber_def)

lemma deinterpolateClamp_mono:
  assumes "a \<le> b" and "s \<le> t"
  shows "deinterpolateClamp a b s \<le> deinterpolateClamp a b t"
proof -
  consider "s \<le> a" | "a < s" "b \<le> s" | "a < s" "s < b" by linarith
  then show ?thesis
  proof cases
    case 1
    then have "deinterpolateClamp a b s = 0" by (simp add: deinterpolateClamp_def)
    moreover have "0 \<le> deinterpolateClamp a b t"
      using assms(1) by (simp add: deinterpolateClamp_def deinterpolateLinear_def)
    ultimately show ?thesis by simp
  next
    case 2
    with assms show ?thesis by (simp add: deinterpolateClamp_def)
  next
    case 3
    show ?thesis
    proof (cases "b \<le> t")
      case True
      with 3 assms show ?thesis
        by (simp add: deinterpolateClamp_def deinterpolateLinear_def)
    next
      case False
      with 3 assms have "(s - a) / (b - a) \<le> (t - a) / (b - a)"
        by (simp add: divide_right_mono)
      with False 3 assms show ?thesis
        by (simp add: deinterpolateClamp_def deinterpolateLinear_def)
    qed
  qed
qed

lemma xAxisScale_mono:
  assumes "startTime p \<le> endTime p" and "0 \<le> width p" and "s \<le> t"
  shows "xAxisScale p s \<le> xAxisScale p t"
proof -
  have "deinterpolateClamp (real_of_int (startTime p)) (real_of_int (endTime p)) (real_of_int s)
          \<le> deinterpolateClamp (real_of_int (startTime p)) (real_of_int (endTime p)) (real_of_int t)"
    using assms(1,3) by (intro deinterpolateClamp_mono) simp_all
  then show ?thesis
    using assms(1,2) by (simp add: xAxisScale_def bimap_def interpolateNumber_def mult_left_mono)
qed

lemma foldl_ordinal_push_distinct:
  "distinct (acc @ names) \<Longrightarrow> foldl ordinal_push acc names = acc @ names"
  by (induction names arbitrary: acc) (auto simp: ordinal_push_def)

lemma ordinal_domain_distinct: "distinct names \<Longrightarrow> ordinal_domain names = names"
  using foldl_ordinal_push_distinct [of "[]" names] by (simp add: ordinal_domain_def)

lemma set_foldl_ordinal_push: "set (foldl ordinal_push acc names) = set acc \<union> set names"
  by (induction names arbitrary: acc) (auto simp: ordinal_push_def)

lemma set_ordinal_domain: "set (ordinal_domain names) = set names"
  by (simp add: ordinal_domain_def set_foldl_ordinal_push)

lemma index_of_None: "index_of d xs = None \<longleftrightarrow> d \<notin> set xs"
  by (induction xs) auto

lemma index_of_nth: "distinct xs \<Longrightarrow> k < length xs \<Longrightarrow> index_of (xs ! k) xs = Some k"
proof (induction xs arbitrary: k)
  case Nil
  then show ?case by simp
next
  case (Cons x xs)
  show ?case
  proof (cases k)
    case 0
    then show ?thesis by simp
  next
    case (Suc j)
    with Cons.prems have "xs ! j \<noteq> x" by auto
    with Suc Cons show ?thesis by simp
  qed
qed

lemma scaleBand_distinct:
  assumes "distinct names" and "names \<noteq> []" and "0 \<le> h"
  shows "band_domain (scaleBand names (0, h)) = names"
    and "band_bandwidth (scaleBand names (0, h)) = h / real (length names)"
    and "band_range (scaleBand names (0, h))
           = map (\<lambda>i. real i * (h / real (length names))) [0..<length names]"
proof -
  have n: "real (length names) \<noteq> 0" "max 1 (real (length names)) = real (length names)"
    using assms(2) by (cases names; simp)+
  show "band_domain (scaleBand names (0, h)) = names"
    using assms(1) by (simp add: scaleBand_def ordinal_domain_distinct Let_def)
  show "band_bandwidth (scaleBand names (0, h)) = h / real (length names)"
    using assms by (simp add: scaleBand_def ordinal_domain_distinct Let_def n)
  show "band_range (scaleBand names (0, h))
           = map (\<lambda>i. real i * (h / real (length names))) [0..<length names]"
    using assms n by (simp add: scaleBand_def ordinal_domain_distinct Let_def mult.commute)
qed

lemma yAxisScale_bands:
  assumes "activities p \<noteq> []" and "distinct (map act_name (activities p))" and "0 \<le> height p"
  shows "bandwidth (yAxisScale p) = height p / real (length (activities p)) \<and>
         real (length (activities p)) * bandwidth (yAxisScale p) = height p \<and>
         (k < length (activities p) \<longrightarrow>
            band_apply (yAxisScale p) (act_name (activities p ! k))
              = Some (real k * (height p / real (length (activities p)))))"
proof -
  let ?names = "map act_name (activities p)"
  have ne: "?names \<noteq> []" using assms(1) by simp
  note sb = scaleBand_distinct [OF assms(2) ne assms(3)]
  have bw: "bandwidth (yAxisScale p) = height p / real (length (activities p))"
    using sb(2) by (simp add: bandwidth_def yAxisScale_def)
  have cover: "real (length (activities p)) * bandwidth (yAxisScale p) = height p"
    using assms(1) by (simp add: bw)
  have "band_apply (yAxisScale p) (act_name (activities p ! k))
          = Some (real k * (height p / real (length (activities p))))"
    if "k < length (activities p)"
  proof -
    have "index_of (?names ! k) ?names = Some k"
      using assms(2) that by (intro index_of_nth) simp_all
    then have "index_of (act_name (activities p ! k)) ?names = Some k"
      using that by simp
    then show ?thesis
      using that sb(1,3) by (simp add: band_apply_def yAxisScale_def)
  qed
  with bw cover show ?thesis by blast
qed

section \<open>Facts about draw and the README's chart\<close>

lemma draw_height:
  "height (fst (draw p)) =
     (if dynamicHeight (yAxis p) then elementHeight (yAxis p) * real (length (activities p))
      else height p)"
  by (simp add: draw_def drawYAxis_def Let_def)

lemma draw_width:
  "width (fst (draw p)) =
     (if dynamicWidth (xAxis p)
      then tickDistance (xAxis p) * real (length (interval (xAxis p) (startTime p) (endTime p)))
      else width p)"
  by (simp add: draw_def drawYAxis_def Let_def)

lemma readme_drawn_domain:
  "startTime (fst (draw (init_domain readme_params))) = 1465196400000"
  "endTime (fst (draw (init_domain readme_params))) = 1465234200000"
  by (simp_all add: draw_def drawYAxis_def init_domain_def readme_params_def readme_data_def
      defaultParameters_def Let_def)

lemma readme_drawn_width: "width (fst (draw (init_domain readme_params))) = 550"
  by (simp add: draw_def drawYAxis_def init_domain_def readme_params_def readme_data_def
      defaultParameters_def interval_range_def Let_def)

lemma readme_drawn_rows:
  "activities (fst (draw (init_domain readme_params))) = readme_activities"
  "height (fst (draw (init_domain readme_params))) = 150"
  by (simp_all add: draw_def drawYAxis_def init_domain_def readme_params_def readme_data_def
      readme_activities_def defaultParameters_def Let_def)

section \<open>Facts about the heap model\<close>



lemma is_array_set_prop: "is_array (set_prop ob k v) = is_array ob"
  by (simp add: set_prop_def)




lemma is_array_fold_copy:
  "is_array (fold (\<lambda>a ob. set_prop ob a (f a)) ks ob0) = is_array ob0"
  by (induction ks arbitrary: ob0) (auto simp: is_array_set_prop)
















































section \<open>Facts about the example heap\<close>













section \<open>C1: the inferred time domain\<close>



section \<open>C2: how deep the merge is\<close>




section \<open>C3: what the merge mutates\<close>




section \<open>C4: the time scale\<close>

text \<open>
  Against claim C4 as stated: with \<^verbatim>\<open>startTime = endTime\<close> and a fixed width of 200 the
  scale is not constant; it answers 0 at the domain's single instant and 200 one
  millisecond later.
\<close>

theorem time_scale_degenerate_counterexample:
  "startTime static_params = endTime static_params \<and>
   xAxisScale static_params 1465196400000 = 0 \<and>
   xAxisScale static_params 1465196400001 = 200"
  by (simp add: static_params_def defaultParameters_def xAxisScale_def bimap_def
      deinterpolateClamp_def deinterpolateLinear_def interpolateNumber_def)

text \<open>
  Claim C4, amended. For \<^verbatim>\<open>startTime < endTime\<close> the time scale is the clamped linear
  map onto \<open>[0, width]\<close>: 0 before the domain, \<open>width\<close> after it, linear interpolation
  inside. For \<^verbatim>\<open>startTime = endTime\<close> nothing is divided by zero, and the scale answers
  0 up to that instant and \<open>width\<close> after it.
\<close>

theorem time_scale_clamped_linear:
  "(startTime p < endTime p \<longrightarrow>
      (t < startTime p \<longrightarrow> xAxisScale p t = 0) \<and>
      (endTime p < t \<longrightarrow> xAxisScale p t = width p) \<and>
      (startTime p \<le> t \<and> t \<le> endTime p \<longrightarrow>
         xAxisScale p t =
           width p * (real_of_int (t - startTime p) / real_of_int (endTime p - startTime p)))) \<and>
   (startTime p = endTime p \<longrightarrow>
      xAxisScale p t = (if t \<le> startTime p then 0 else width p))"
  by (auto simp: xAxisScale_ordered)

text \<open>
  On the README's chart (domain 07:00 to 17:30, width 550): 04:00 maps to 0, a time after
  17:30 to 550, 08:00 to 1100/21; on the degenerate domain of \<open>static_params\<close>: 0 and 200.
\<close>

theorem time_scale_clamped_linear_witness:
  "startTime (fst (draw (init_domain readme_params))) < endTime (fst (draw (init_domain readme_params))) \<and>
   1465185600000 < startTime (fst (draw (init_domain readme_params))) \<and>
   xAxisScale (fst (draw (init_domain readme_params))) 1465185600000 = 0 \<and>
   endTime (fst (draw (init_domain readme_params))) < 1465250000000 \<and>
   xAxisScale (fst (draw (init_domain readme_params))) 1465250000000 = 550 \<and>
   startTime (fst (draw (init_domain readme_params))) \<le> 1465200000000 \<and>
   1465200000000 \<le> endTime (fst (draw (init_domain readme_params))) \<and>
   xAxisScale (fst (draw (init_domain readme_params))) 1465200000000 = 1100 / 21 \<and>
   startTime static_params = endTime static_params \<and>
   xAxisScale static_params 1465196400000 = 0 \<and>
   xAxisScale static_params 1465200000000 = 200"
proof -
  let ?p = "fst (draw (init_domain readme_params))"
  note d = readme_drawn_domain readme_drawn_width
  have lt: "startTime ?p < endTime ?p" by (simp add: d)
  have a: "xAxisScale ?p 1465185600000 = 0"
    using time_scale_clamped_linear [of ?p 1465185600000] lt by (simp add: d)
  have b: "xAxisScale ?p 1465250000000 = 550"
    using time_scale_clamped_linear [of ?p 1465250000000] lt by (simp add: d)
  have c: "xAxisScale ?p 1465200000000 = 1100 / 21"
    using time_scale_clamped_linear [of ?p 1465200000000] lt by (simp add: d)
  have s: "startTime static_params = 1465196400000" "endTime static_params = 1465196400000"
    "width static_params = 200"
    by (simp_all add: static_params_def defaultParameters_def)
  have e: "xAxisScale static_params 1465196400000 = 0"
    using time_scale_clamped_linear [of static_params 1465196400000] by (simp add: s)
  have f: "xAxisScale static_params 1465200000000 = 200"
    using time_scale_clamped_linear [of static_params 1465200000000] by (simp add: s)
  show ?thesis by (simp add: a b c e f) (simp add: d s)
qed

section \<open>C5: the dimensions draw computes\<close>

text \<open>
  Claim C5. After \<^verbatim>\<open>draw\<close>, the height is \<^verbatim>\<open>yAxis.elementHeight\<close> times the number of
  activities when \<^verbatim>\<open>yAxis.dynamicHeight\<close> is set and the configured height otherwise; the
  width is \<^verbatim>\<open>xAxis.tickDistance\<close> times the number of ticks of the interval over
  \<open>[startTime, endTime]\<close> when \<^verbatim>\<open>xAxis.dynamicWidth\<close> is set and the configured width
  otherwise.
\<close>

theorem draw_dimensions:
  "height (fst (draw p)) =
     (if dynamicHeight (yAxis p) then elementHeight (yAxis p) * real (length (activities p))
      else height p) \<and>
   width (fst (draw p)) =
     (if dynamicWidth (xAxis p)
      then tickDistance (xAxis p) * real (length (interval (xAxis p) (startTime p) (endTime p)))
      else width p)"
  using draw_height [of p] draw_width [of p] by (rule conjI)

text \<open>
  Three activities with element height 50 give the height 150 although 200 is configured;
  with \<^verbatim>\<open>dynamicWidth\<close> off the configured width 200 is kept.
\<close>

theorem draw_dimensions_example:
  "dynamicHeight (yAxis readme_params) \<and> elementHeight (yAxis readme_params) = 50 \<and>
   length (activities readme_params) = 3 \<and> height readme_params = 200 \<and>
   height (fst (draw readme_params)) = 150 \<and>
   \<not> dynamicWidth (xAxis static_params) \<and> width (fst (draw static_params)) = 200"
proof -
  have a: "dynamicHeight (yAxis readme_params)" "elementHeight (yAxis readme_params) = 50"
    "length (activities readme_params) = 3" "height readme_params = 200"
    by (simp_all add: readme_params_def readme_activities_def defaultParameters_def)
  have b: "\<not> dynamicWidth (xAxis static_params)" "width static_params = 200"
    by (simp_all add: static_params_def defaultParameters_def)
  show ?thesis
    using draw_dimensions [of readme_params] draw_dimensions [of static_params]
    by (simp add: a b)
qed

section \<open>C6: the row bands\<close>

text \<open>
  Claim C6. For \<open>n > 0\<close> activities with pairwise different names and a height that is
  not negative, the row scale cuts \<open>[0, height]\<close> into \<open>n\<close> bands of height
  \<open>height / n\<close> each, in list order: the \<open>k\<close>-th name starts at \<open>k * (height / n)\<close>,
  so each band begins where the previous one ends, and the \<open>n\<close> bands together are
  \<open>height\<close> long.
\<close>

theorem row_bands:
  assumes "activities p \<noteq> []" and "distinct (map act_name (activities p))" and "0 \<le> height p"
  shows "bandwidth (yAxisScale p) = height p / real (length (activities p)) \<and>
         real (length (activities p)) * bandwidth (yAxisScale p) = height p \<and>
         (k < length (activities p) \<longrightarrow>
            band_apply (yAxisScale p) (act_name (activities p ! k))
              = Some (real k * (height p / real (length (activities p)))))"
  using assms by (rule yAxisScale_bands)

text \<open>
  The three rows of the README's chart, 150 high: bands of 50, Jane's starting at 100.
\<close>

theorem row_bands_witness:
  "activities (fst (draw (init_domain readme_params))) \<noteq> [] \<and>
   distinct (map act_name (activities (fst (draw (init_domain readme_params))))) \<and>
   0 \<le> height (fst (draw (init_domain readme_params))) \<and>
   (2::nat) < length (activities (fst (draw (init_domain readme_params)))) \<and>
   act_name (activities (fst (draw (init_domain readme_params))) ! 2) = ''Jane'' \<and>
   bandwidth (yAxisScale (fst (draw (init_domain readme_params)))) = 50 \<and>
   band_apply (yAxisScale (fst (draw (init_domain readme_params)))) ''Jane'' = Some 100"
proof -
  let ?p = "fst (draw (init_domain readme_params))"
  note r = readme_drawn_rows
  have 1: "activities ?p \<noteq> []" by (simp add: r readme_activities_def)
  have 2: "distinct (map act_name (activities ?p))" by (simp add: r readme_activities_def)
  have 3: "0 \<le> height ?p" by (simp add: r)
  have 4: "(2::nat) < length (activities ?p)" by (simp add: r readme_activities_def)
  have 5: "act_name (activities ?p ! 2) = ''Jane''" by (simp add: r readme_activities_def)
  have 6: "length (activities ?p) = 3" by (simp add: r readme_activities_def)
  from row_bands [OF 1 2 3, where k = 2] 4
  have "bandwidth (yAxisScale ?p) = 50"
    and "band_apply (yAxisScale ?p) (act_name (activities ?p ! 2)) = Some 100"
    by (simp_all add: 6 r(2))
  with 1 2 3 4 5 show ?thesis by simp
qed

section \<open>C7: bar widths\<close>

text \<open>
  Claim C7. For an event with \<open>start \<le> end\<close>, the bar width
  \<^verbatim>\<open>xAxisScale(end) - xAxisScale(start)\<close> is not negative, wherever the event lies with
  respect to the time domain. The configuration is a well-formed one: the domain is
  ordered and the chart width is not negative.
\<close>

theorem bar_width_nonneg:
  assumes "ev_start elem \<le> ev_end elem" and "startTime p \<le> endTime p" and "0 \<le> width p"
  shows "0 \<le> elementWidth p elem"
  using xAxisScale_mono [OF assms(2,3,1)] by (simp add: elementWidth_def)

text \<open>
  An event from 04:00 to 08:00 on the README's chart, which starts before the domain.
\<close>

theorem bar_width_nonneg_witness:
  "ev_start outside_event \<le> ev_end outside_event \<and>
   startTime (fst (draw (init_domain readme_params))) \<le> endTime (fst (draw (init_domain readme_params))) \<and>
   0 \<le> width (fst (draw (init_domain readme_params))) \<and>
   ev_start outside_event < startTime (fst (draw (init_domain readme_params))) \<and>
   0 \<le> elementWidth (fst (draw (init_domain readme_params))) outside_event"
proof -
  let ?p = "fst (draw (init_domain readme_params))"
  have 1: "ev_start outside_event \<le> ev_end outside_event" by (simp add: outside_event_def)
  have s: "startTime ?p = 1465196400000" and e: "endTime ?p = 1465234200000"
    by (simp_all add: draw_def drawYAxis_def init_domain_def readme_params_def readme_data_def
        defaultParameters_def Let_def)
  have w: "width ?p = 550"
    by (simp add: draw_def drawYAxis_def init_domain_def readme_params_def readme_data_def
        defaultParameters_def interval_range_def Let_def)
  have 2: "startTime ?p \<le> endTime ?p" by (simp add: s e)
  have 3: "0 \<le> width ?p" by (simp add: w)
  have 4: "ev_start outside_event < startTime ?p" by (simp add: s outside_event_def)
  from bar_width_nonneg [OF 1 2 3] 1 2 3 4 show ?thesis by simp
qed

section \<open>C8: an event of an unknown activity\<close>

text \<open>
  Against claim C8 as stated: an event of the activity Alice, which is not configured,
  raises nothing; \<^verbatim>\<open>draw\<close> returns, and the event gets its rectangle, with a transform
  whose vertical part is \<^verbatim>\<open>undefined\<close>.
\<close>

theorem unknown_activity_counterexample:
  "ev_activity stray_event \<notin> set (map act_name (activities (init_domain stray_params))) \<and>
   elementTranslate (fst (draw (init_domain stray_params))) stray_event = Translate 0 None \<and>
   chart_elements (snd (draw (init_domain stray_params))) =
     [\<lparr>el_transform = Translate 0 None, el_fill = None, el_stroke = None, el_height = 50,
       el_width = 400, el_label_transform = Translate 200 (Some 25), el_text = ''Work''\<rparr>]"
  by (simp add: stray_params_def stray_event_def readme_params_def readme_activities_def
      defaultParameters_def init_domain_def draw_def drawYAxis_def draw_element_def
      elementTranslate_def elementLabelTranslate_def elementWidth_def xAxisScale_def
      yAxisScale_def scaleBand_def band_apply_def bandwidth_def ordinal_domain_def
      ordinal_push_def bimap_def deinterpolateClamp_def deinterpolateLinear_def
      interpolateNumber_def interval_range_def truthy_colour_def Let_def)

text \<open>
  Claim C8, amended. For an event whose activity is no configured activity name,
  \<^verbatim>\<open>elementTranslate\<close> returns a transform with the horizontal position of the event
  and an undefined vertical position; \<^verbatim>\<open>draw\<close> appends one element per data point,
  this event's among them.
\<close>

theorem unknown_activity_is_drawn:
  assumes "ev_activity elem \<notin> set (map act_name (activities p))"
  shows "elementTranslate p elem = Translate (xAxisScale p (ev_start elem)) None \<and>
         length (chart_elements (snd (draw p))) = length (data p) \<and>
         (elem \<in> set (data p) \<longrightarrow>
            draw_element (fst (draw p)) elem \<in> set (chart_elements (snd (draw p))) \<and>
            el_transform (draw_element (fst (draw p)) elem)
              = Translate (xAxisScale (fst (draw p)) (ev_start elem)) None)"
proof -
  have none: "band_apply (yAxisScale q) (ev_activity elem) = None"
    if "activities q = activities p" for q
    using assms that
    by (simp add: band_apply_def yAxisScale_def scaleBand_def Let_def index_of_None [THEN iffD2]
        set_ordinal_domain)
  have a: "elementTranslate p elem = Translate (xAxisScale p (ev_start elem)) None"
    by (simp add: elementTranslate_def none)
  have acts: "activities (fst (draw p)) = activities p"
    by (simp add: draw_def drawYAxis_def Let_def)
  have dat: "data (fst (draw p)) = data p"
    by (simp add: draw_def drawYAxis_def Let_def)
  have els: "chart_elements (snd (draw p)) = map (draw_element (fst (draw p))) (data p)"
    by (simp add: draw_def Let_def drawYAxis_def)
  have b: "length (chart_elements (snd (draw p))) = length (data p)"
    by (simp add: els)
  have c: "el_transform (draw_element (fst (draw p)) elem)
             = Translate (xAxisScale (fst (draw p)) (ev_start elem)) None"
    by (simp add: draw_element_def elementTranslate_def none [OF acts])
  from a b c els show ?thesis by simp
qed

text \<open>
  The event of Alice on the README's activities.
\<close>

theorem unknown_activity_is_drawn_witness:
  "ev_activity stray_event \<notin> set (map act_name (activities (init_domain stray_params))) \<and>
   stray_event \<in> set (data (init_domain stray_params)) \<and>
   elementTranslate (init_domain stray_params) stray_event
     = Translate (xAxisScale (init_domain stray_params) (ev_start stray_event)) None \<and>
   length (chart_elements (snd (draw (init_domain stray_params)))) = 1 \<and>
   draw_element (fst (draw (init_domain stray_params))) stray_event
     \<in> set (chart_elements (snd (draw (init_domain stray_params)))) \<and>
   el_transform (draw_element (fst (draw (init_domain stray_params))) stray_event)
     = Translate (xAxisScale (fst (draw (init_domain stray_params))) (ev_start stray_event)) None"
proof -
  let ?p = "init_domain stray_params"
  have a: "activities ?p = readme_activities" and d: "data ?p = [stray_event]"
    by (simp_all add: init_domain_def stray_params_def readme_params_def defaultParameters_def
        Let_def)
  have 1: "ev_activity stray_event \<notin> set (map act_name (activities ?p))"
    by (simp add: a readme_activities_def stray_event_def)
  have 2: "stray_event \<in> set (data ?p)" by (simp add: d)
  from unknown_activity_is_drawn [OF 1] 1 2 show ?thesis by (simp add: d)
qed

section \<open>C9: the array init sorts\<close>




section \<open>C10: drawYAxis overwrites the element height\<close>

text \<open>
  Claim C10. \<^verbatim>\<open>drawYAxis\<close> stores the band width of the row scale in
  \<^verbatim>\<open>params.yAxis.elementHeight\<close>, which is the chart height divided by the number of
  activities (for at least one activity, names pairwise different, a height not
  negative); after \<^verbatim>\<open>draw\<close> the stored value is that band width, every bar drawn has
  it as its height, and the next \<^verbatim>\<open>draw\<close> computes the dynamic height from it.
\<close>

theorem drawYAxis_overwrites_elementHeight:
  "elementHeight (yAxis (drawYAxis p)) = bandwidth (yAxisScale p) \<and>
   (activities p \<noteq> [] \<and> distinct (map act_name (activities p)) \<and> 0 \<le> height p \<longrightarrow>
      elementHeight (yAxis (drawYAxis p)) = height p / real (length (activities p))) \<and>
   elementHeight (yAxis (fst (draw p))) = bandwidth (yAxisScale (fst (draw p))) \<and>
   (el \<in> set (chart_elements (snd (draw p))) \<longrightarrow>
      el_height el = elementHeight (yAxis (fst (draw p)))) \<and>
   (dynamicHeight (yAxis p) \<longrightarrow>
      height (fst (draw (fst (draw p))))
        = elementHeight (yAxis (fst (draw p))) * real (length (activities p)))"
proof (intro conjI impI)
  show "elementHeight (yAxis (drawYAxis p)) = bandwidth (yAxisScale p)"
    by (simp add: drawYAxis_def)
next
  assume "activities p \<noteq> [] \<and> distinct (map act_name (activities p)) \<and> 0 \<le> height p"
  then have "bandwidth (yAxisScale p) = height p / real (length (activities p))"
    using yAxisScale_bands [of p] by simp
  then show "elementHeight (yAxis (drawYAxis p)) = height p / real (length (activities p))"
    by (simp add: drawYAxis_def)
next
  show "elementHeight (yAxis (fst (draw p))) = bandwidth (yAxisScale (fst (draw p)))"
    by (simp add: draw_def drawYAxis_def yAxisScale_def Let_def)
next
  assume "el \<in> set (chart_elements (snd (draw p)))"
  then show "el_height el = elementHeight (yAxis (fst (draw p)))"
    by (auto simp: draw_def draw_element_def Let_def)
next
  assume "dynamicHeight (yAxis p)"
  then have "dynamicHeight (yAxis (fst (draw p)))"
    and "activities (fst (draw p)) = activities p"
    by (simp_all add: draw_def drawYAxis_def Let_def)
  then show "height (fst (draw (fst (draw p))))
        = elementHeight (yAxis (fst (draw p))) * real (length (activities p))"
    using draw_height [of "fst (draw p)"] by simp
qed

text \<open>
  The README's chart with a fixed height of 200: the configured element height 50 becomes
  200/3, also for the bars. With the dynamic height, a second \<^verbatim>\<open>draw\<close> gives 150 again.
\<close>

theorem drawYAxis_overwrites_elementHeight_witness:
  "activities fixed_height_params \<noteq> [] \<and>
   distinct (map act_name (activities fixed_height_params)) \<and>
   0 \<le> height fixed_height_params \<and>
   elementHeight (yAxis fixed_height_params) = 50 \<and>
   elementHeight (yAxis (drawYAxis fixed_height_params)) = 200 / 3 \<and>
   draw_element (fst (draw fixed_height_params)) (hd readme_data)
     \<in> set (chart_elements (snd (draw fixed_height_params))) \<and>
   el_height (draw_element (fst (draw fixed_height_params)) (hd readme_data)) = 200 / 3 \<and>
   dynamicHeight (yAxis readme_params) \<and>
   height (fst (draw (fst (draw readme_params)))) = 150"
proof -
  let ?p = "fixed_height_params"
  have a: "activities ?p = readme_activities" "height ?p = 200" "data ?p = readme_data"
    "elementHeight (yAxis ?p) = 50"
    by (simp_all add: fixed_height_params_def readme_params_def defaultParameters_def)
  have 1: "activities ?p \<noteq> [] \<and> distinct (map act_name (activities ?p)) \<and> 0 \<le> height ?p"
    by (simp add: a readme_activities_def)
  have n: "length (activities ?p) = 3" by (simp add: a readme_activities_def)
  have 2: "draw_element (fst (draw ?p)) (hd readme_data) \<in> set (chart_elements (snd (draw ?p)))"
    by (simp add: draw_def drawYAxis_def Let_def a readme_data_def)
  note t = drawYAxis_overwrites_elementHeight
    [of ?p "draw_element (fst (draw ?p)) (hd readme_data)"]
  from t 1 have "elementHeight (yAxis (drawYAxis ?p)) = height ?p / real (length (activities ?p))"
    by blast
  then have 3: "elementHeight (yAxis (drawYAxis ?p)) = 200 / 3"
    by (simp add: n a(2))
  have dh: "\<not> dynamicHeight (yAxis ?p)"
    by (simp add: fixed_height_params_def)
  have "height (fst (draw ?p)) = 200"
    by (simp add: draw_height dh a)
  moreover have "activities (fst (draw ?p)) = readme_activities"
    by (simp add: draw_def drawYAxis_def Let_def a)
  ultimately have bw: "bandwidth (yAxisScale (fst (draw ?p))) = 200 / 3"
    using yAxisScale_bands [of "fst (draw ?p)"] by (simp add: readme_activities_def)
  from t 2 have "el_height (draw_element (fst (draw ?p)) (hd readme_data))
      = bandwidth (yAxisScale (fst (draw ?p)))"
    by metis
  then have 4: "el_height (draw_element (fst (draw ?p)) (hd readme_data)) = 200 / 3"
    by (simp only: bw)
  have 5: "dynamicHeight (yAxis readme_params)"
    by (simp add: readme_params_def)
  have r: "activities readme_params = readme_activities" "elementHeight (yAxis readme_params) = 50"
    by (simp_all add: readme_params_def defaultParameters_def)
  have "height (fst (draw readme_params)) = 150"
    by (simp add: draw_height 5 r readme_activities_def)
  moreover have "activities (fst (draw readme_params)) = readme_activities"
    by (simp add: draw_def drawYAxis_def Let_def r)
  ultimately have bw': "bandwidth (yAxisScale (fst (draw readme_params))) = 50"
    using yAxisScale_bands [of "fst (draw readme_params)"] by (simp add: readme_activities_def)
  from drawYAxis_overwrites_elementHeight [of readme_params] 5
  have "height (fst (draw (fst (draw readme_params))))
      = bandwidth (yAxisScale (fst (draw readme_params))) * real (length (activities readme_params))"
    by metis
  then have 6: "height (fst (draw (fst (draw readme_params)))) = 150"
    by (simp add: bw' r readme_activities_def)
  from 1 3 4 2 5 6 a(4) show ?thesis by simp
qed

end
